theory Spec2Isabelle
  imports Main "HOL-Library.Sublist"
begin

section \<open>Values, errors and collaborator calls\<close>

text \<open>
  The two source files are \<^verbatim>\<open>ignite/engine/__init__.py\<close> (the batch adapter and the two
  engine factories) and \<^verbatim>\<open>ignite/contrib/metrics/average_precision.py\<close> (the metric).
  Tensors are values of an arbitrary type \<open>'t\<close>. The objects the code only calls methods on
  (the model, the optimizer, the gradient scaler, torch, apex, torch_xla, a metric) are not
  given a state of their own: every call the code makes on one of them is recorded, in
  program order, in a list of calls. A Python exception is an \<open>error\<close> value; a computation
  returns the calls it made together with either the error it raised or its result.
  The collaborators themselves are taken to return normally.
\<close>

datatype error =
    NameError string
  | ValueError
  | RuntimeError string
  | ImportError string

text \<open>A device argument is a string or a \<^verbatim>\<open>torch.device\<close>, which has a \<^verbatim>\<open>type\<close> and an index.\<close>

datatype device =
    DeviceStr string
  | TorchDevice string "nat option"

text \<open>The iterable that \<^verbatim>\<open>clip_grad_norm_\<close> is called on.\<close>

datatype clip_params =
    ModelParameters
  | AmpMasterParams

text \<open>
  One constructor per call that the source makes on a collaborator.
  \<open>'k\<close> is the type of a keyword-argument value, \<open>'m\<close> the type of a metric object.
  \<open>AutocastEnter\<close> carries the truth value of the argument of \<^verbatim>\<open>autocast(amp)\<close>, \<open>EngineInit\<close>
  whether the engine built is a \<^verbatim>\<open>DeterministicEngine\<close>.
\<close>

datatype ('k, 'm) call =
    ModelTrain
  | ModelEval
  | ModelForward
  | LossFn
  | OptimizerZeroGrad
  | OptimizerStep
  | AutocastEnter bool
  | AutocastExit
  | AmpScaleLossEnter
  | ScaledLossBackward
  | AmpScaleLossExit
  | ScalerScaleBackward
  | ScalerUnscale
  | ScalerStep
  | ScalerUpdate
  | ClipGradNorm clip_params "(string \<times> 'k) list"
  | XmOptimizerStep
  | NoGradEnter
  | NoGradExit
  | ImportAutocast
  | ImportApex
  | EngineInit bool
  | MetricAttach 'm string

text \<open>The object a call is made on.\<close>

datatype callee =
    TheModel
  | TheOptimizer
  | TheLossFn
  | TheScaler
  | Torch
  | Apex
  | TorchXla
  | TheEngine
  | TheMetric

fun callee_of :: "('k, 'm) call \<Rightarrow> callee" where
  "callee_of ModelTrain = TheModel"
| "callee_of ModelEval = TheModel"
| "callee_of ModelForward = TheModel"
| "callee_of LossFn = TheLossFn"
| "callee_of OptimizerZeroGrad = TheOptimizer"
| "callee_of OptimizerStep = TheOptimizer"
| "callee_of (AutocastEnter b) = Torch"
| "callee_of AutocastExit = Torch"
| "callee_of AmpScaleLossEnter = Apex"
| "callee_of ScaledLossBackward = Apex"
| "callee_of AmpScaleLossExit = Apex"
| "callee_of ScalerScaleBackward = TheScaler"
| "callee_of ScalerUnscale = TheScaler"
| "callee_of ScalerStep = TheScaler"
| "callee_of ScalerUpdate = TheScaler"
| "callee_of (ClipGradNorm p kw) = Torch"
| "callee_of XmOptimizerStep = TorchXla"
| "callee_of NoGradEnter = Torch"
| "callee_of NoGradExit = Torch"
| "callee_of ImportAutocast = Torch"
| "callee_of ImportApex = Apex"
| "callee_of (EngineInit d) = TheEngine"
| "callee_of (MetricAttach m n) = TheMetric"

subsection \<open>Sequencing computations that log calls and may raise\<close>

type_synonym ('c, 'a) run = "'c list \<times> (error + 'a)"

definition ret :: "'a \<Rightarrow> ('c, 'a) run" where
  "ret a = ([], Inr a)"

definition raise :: "error \<Rightarrow> ('c, 'a) run" where
  "raise e = ([], Inl e)"

definition do_call :: "'c \<Rightarrow> ('c, unit) run" where
  "do_call c = ([c], Inr ())"

text \<open>Lift a pure computation that may raise.\<close>

definition lift :: "error + 'a \<Rightarrow> ('c, 'a) run" where
  "lift r = ([], r)"

text \<open>Run \<open>m\<close>; if it raised, stop with its calls and its error, otherwise continue with \<open>f\<close>.\<close>

definition seq :: "('c, 'a) run \<Rightarrow> ('a \<Rightarrow> ('c, 'b) run) \<Rightarrow> ('c, 'b) run" where
  "seq m f =
     (case snd m of
        Inl e \<Rightarrow> (fst m, Inl e)
      | Inr a \<Rightarrow> (fst m @ fst (f a), snd (f a)))"

text \<open>
  A \<^verbatim>\<open>with\<close> block: the context is entered, the body runs, and the context is left whether
  or not the body raised (none of the contexts used here swallows an exception).
\<close>

definition with_context :: "'c \<Rightarrow> 'c \<Rightarrow> ('c, 'a) run \<Rightarrow> ('c, 'a) run" where
  "with_context enter exit body = ([enter] @ fst body @ [exit], snd body)"

subsection \<open>Python name lookup and boolean operators\<close>

text \<open>
  A local variable of an enclosing function that is assigned on some paths only is a
  \<open>bool option\<close>: \<open>None\<close> is the unbound variable, and reading it raises \<^verbatim>\<open>NameError\<close>.
\<close>

definition load :: "string \<Rightarrow> 'a option \<Rightarrow> error + 'a" where
  "load name v = (case v of None \<Rightarrow> Inl (NameError name) | Some b \<Rightarrow> Inr b)"

text \<open>
  \<^verbatim>\<open>a and b\<close> evaluates \<open>b\<close> only when \<open>a\<close> is true, so an error in \<open>b\<close> shows only then;
  \<^verbatim>\<open>not a\<close> passes an error on.
\<close>

definition py_and :: "error + bool \<Rightarrow> error + bool \<Rightarrow> error + bool" where
  "py_and a b = (case a of Inl e \<Rightarrow> Inl e | Inr t \<Rightarrow> if t then b else Inr False)"

definition py_not :: "error + bool \<Rightarrow> error + bool" where
  "py_not a = (case a of Inl e \<Rightarrow> Inl e | Inr t \<Rightarrow> Inr (\<not> t))"

text \<open>\<^verbatim>\<open>sub in s\<close> on strings: \<open>sub\<close> occurs in \<open>s\<close> as a contiguous substring.\<close>

fun str_contains :: "string \<Rightarrow> string \<Rightarrow> bool" where
  "str_contains sub [] = (sub = [])"
| "str_contains sub (c # cs) = (prefix sub (c # cs) \<or> str_contains sub cs)"

section \<open>Batch preparation\<close>

text \<open>
  \<^verbatim>\<open>_prepare_batch\<close>, here \<open>prepare_batch_default\<close> (the nested functions \<^verbatim>\<open>_update\<close> and
  \<^verbatim>\<open>_inference\<close> are \<open>update\<close> and \<open>inference\<close> below): the destructuring \<^verbatim>\<open>x, y = batch\<close> raises \<^verbatim>\<open>ValueError\<close> unless the batch
  has exactly two elements; \<^verbatim>\<open>convert_tensor\<close> (of \<^verbatim>\<open>ignite.utils\<close>) is a parameter.
\<close>

definition unpack2 :: "'a list \<Rightarrow> error + 'a \<times> 'a" where
  "unpack2 batch = (case batch of [x, y] \<Rightarrow> Inr (x, y) | _ \<Rightarrow> Inl ValueError)"

definition prepare_batch_default ::
  "('t \<Rightarrow> device option \<Rightarrow> bool \<Rightarrow> 't) \<Rightarrow> 't list \<Rightarrow> device option \<Rightarrow> bool \<Rightarrow> error + 't \<times> 't" where
  "prepare_batch_default convert_tensor batch device non_blocking =
     (case unpack2 batch of
        Inl e \<Rightarrow> Inl e
      | Inr (x, y) \<Rightarrow>
          Inr (convert_tensor x device non_blocking, convert_tensor y device non_blocking))"

section \<open>The supervised trainer\<close>

text \<open>
  What the module reads from its surroundings when a trainer is built: whether
  \<^verbatim>\<open>idist.has_xla_support\<close> holds, whether
  \<^verbatim>\<open>LooseVersion(torch.__version__) >= LooseVersion("1.6.0")\<close> holds, and whether
  \<^verbatim>\<open>from apex import amp\<close> succeeds.
\<close>

record environment =
  has_xla_support :: bool
  torch_ge_1_6_0 :: bool
  apex_importable :: bool

text \<open>
  The arguments that both factories take. The model is the function of its forward pass;
  the calls made on it are logged as well.
\<close>

record 't supervised_args =
  model :: "'t \<Rightarrow> 't"
  device :: "device option"
  non_blocking :: bool
  prepare_batch :: "'t list \<Rightarrow> device option \<Rightarrow> bool \<Rightarrow> error + 't \<times> 't"

text \<open>
  The further arguments of \<^verbatim>\<open>create_supervised_trainer\<close>. The optimizer and the scaler only
  receive calls, which the log records; \<^verbatim>\<open>opt_level\<close> is never read.
\<close>

record ('t, 'o, 'k) trainer_args = "'t supervised_args" +
  loss_fn :: "'t \<Rightarrow> 't \<Rightarrow> 't"
  output_transform :: "'t \<Rightarrow> 't \<Rightarrow> 't \<Rightarrow> 't \<Rightarrow> 'o"
  deterministic :: bool
  amp :: bool
  grad_norm_kwargs :: "(string \<times> 'k) list"

text \<open>
  The name \<^verbatim>\<open>amp\<close> in the factory's scope holds the boolean argument until
  \<^verbatim>\<open>from apex import amp\<close> rebinds it to the apex module, which is true as a condition.
\<close>

datatype amp_value =
    AmpFlag bool
  | ApexModule

fun truthy :: "amp_value \<Rightarrow> bool" where
  "truthy (AmpFlag b) = b"
| "truthy ApexModule = True"

text \<open>
  The scope of \<^verbatim>\<open>create_supervised_trainer\<close> as the nested function \<^verbatim>\<open>_update\<close> sees it:
  the arguments, and the locals \<^verbatim>\<open>on_tpu\<close>, \<^verbatim>\<open>amp\<close>, \<^verbatim>\<open>is_native_amp\<close> and \<^verbatim>\<open>is_apex_amp\<close>. The
  last two are assigned inside the branches of the version test only, so each may be unbound.
\<close>

record ('t, 'o, 'k) trainer_scope =
  sc_args :: "('t, 'o, 'k) trainer_args"
  sc_amp :: amp_value
  on_tpu :: bool
  is_native_amp :: "bool option"
  is_apex_amp :: "bool option"

definition native_flag :: "('t, 'o, 'k) trainer_scope \<Rightarrow> error + bool" where
  "native_flag sc = load ''is_native_amp'' (is_native_amp sc)"

definition apex_flag :: "('t, 'o, 'k) trainer_scope \<Rightarrow> error + bool" where
  "apex_flag sc = load ''is_apex_amp'' (is_apex_amp sc)"

text \<open>Lines 125 to 131 of \<^verbatim>\<open>_update\<close>: the forward pass and the loss.\<close>

definition forward_loss ::
  "('t, 'o, 'k) trainer_scope \<Rightarrow> 't \<Rightarrow> 't \<Rightarrow> (('k, 'm) call, 't \<times> 't) run" where
  "forward_loss sc x y =
     seq (lift (py_and (native_flag sc) (py_not (apex_flag sc)))) (\<lambda>native.
       if native then
         with_context (AutocastEnter (truthy (sc_amp sc))) AutocastExit
           (seq (do_call ModelForward) (\<lambda>_.
            seq (do_call LossFn) (\<lambda>_.
            ret (model (sc_args sc) x, loss_fn (sc_args sc) (model (sc_args sc) x) y))))
       else
         seq (do_call ModelForward) (\<lambda>_.
         seq (do_call LossFn) (\<lambda>_.
         ret (model (sc_args sc) x, loss_fn (sc_args sc) (model (sc_args sc) x) y))))"

text \<open>Lines 133 to 138: the backward pass.\<close>

definition backward :: "('t, 'o, 'k) trainer_scope \<Rightarrow> (('k, 'm) call, unit) run" where
  "backward sc =
     seq (lift (py_and (apex_flag sc) (py_not (native_flag sc)))) (\<lambda>apex.
       if apex then
         with_context AmpScaleLossEnter AmpScaleLossExit (do_call ScaledLossBackward)
       else
         seq (lift (py_and (py_not (apex_flag sc)) (native_flag sc))) (\<lambda>native.
           if native then
             seq (do_call ScalerScaleBackward) (\<lambda>_. do_call ScalerUnscale)
           else ret ()))"

text \<open>Lines 140 to 143: gradient clipping. A dictionary is true as a condition when it is not empty.\<close>

definition clip_gradients :: "('t, 'o, 'k) trainer_scope \<Rightarrow> (('k, 'm) call, unit) run" where
  "clip_gradients sc =
     (let kwargs = grad_norm_kwargs (sc_args sc) in
      seq (lift (py_and (py_and (Inr (kwargs \<noteq> [])) (py_not (apex_flag sc))) (native_flag sc)))
        (\<lambda>native.
          if native then do_call (ClipGradNorm ModelParameters kwargs)
          else
            seq (lift (py_and (py_and (Inr (kwargs \<noteq> [])) (apex_flag sc))
                   (py_not (native_flag sc))))
              (\<lambda>apex.
                if apex then do_call (ClipGradNorm AmpMasterParams kwargs)
                else ret ())))"

text \<open>Lines 145 to 151: the optimizer step.\<close>

definition optimizer_step :: "('t, 'o, 'k) trainer_scope \<Rightarrow> (('k, 'm) call, unit) run" where
  "optimizer_step sc =
     seq (lift (py_and (Inr (on_tpu sc)) (py_not (Inr (truthy (sc_amp sc)))))) (\<lambda>tpu.
       if tpu then do_call XmOptimizerStep
       else
         seq (lift (py_and (native_flag sc) (py_not (apex_flag sc)))) (\<lambda>native.
           if native then seq (do_call ScalerStep) (\<lambda>_. do_call ScalerUpdate)
           else
             seq (lift (py_and (py_not (native_flag sc)) (apex_flag sc))) (\<lambda>apex.
               if apex then do_call OptimizerStep
               else ret ())))"

text \<open>
  \<^verbatim>\<open>_update\<close>, the trainer's function for one iteration. Its first argument, the engine, is
  not used by the source and is left out.
\<close>

definition update ::
  "('t, 'o, 'k) trainer_scope \<Rightarrow> 't list \<Rightarrow> (('k, 'm) call, 'o) run" where
  "update sc batch =
     seq (do_call ModelTrain) (\<lambda>_.
     seq (do_call OptimizerZeroGrad) (\<lambda>_.
     seq (lift (prepare_batch (sc_args sc) batch (device (sc_args sc)) (non_blocking (sc_args sc))))
       (\<lambda>(x, y).
     seq (forward_loss sc x y) (\<lambda>(y_pred, loss).
     seq (backward sc) (\<lambda>_.
     seq (clip_gradients sc) (\<lambda>_.
     seq (optimizer_step sc) (\<lambda>_.
     ret (output_transform (sc_args sc) x y y_pred loss))))))))"

text \<open>
  Modelled from the spec: the classes \<^verbatim>\<open>Engine\<close> and \<^verbatim>\<open>DeterministicEngine\<close> are not among the
  sources. The spec calls the engine an external event-dispatch state machine that the
  factories hand their step function to; an engine is here the function it runs on each
  batch, and whether it is the deterministic kind.
\<close>

record ('t, 'o, 'k, 'm) engine =
  process_function :: "'t list \<Rightarrow> (('k, 'm) call, 'o) run"
  is_deterministic :: bool

text \<open>Lines 103 and 104: the device type and the TPU flag.\<close>

definition device_type :: "device option \<Rightarrow> string option" where
  "device_type dev =
     (case dev of
        None \<Rightarrow> None
      | Some (TorchDevice t i) \<Rightarrow> Some t
      | Some (DeviceStr s) \<Rightarrow> Some s)"

definition on_tpu_of :: "device option \<Rightarrow> bool" where
  "on_tpu_of dev = (case device_type dev of None \<Rightarrow> False | Some t \<Rightarrow> str_contains ''xla'' t)"

text \<open>
  Lines 109 to 119: the choice of the mixed-precision backend. It yields the values of
  \<^verbatim>\<open>amp\<close>, \<^verbatim>\<open>is_native_amp\<close> and \<^verbatim>\<open>is_apex_amp\<close> that the rest of the factory sees.
\<close>

definition select_amp ::
  "environment \<Rightarrow> bool \<Rightarrow> (('k, 'm) call, amp_value \<times> bool option \<times> bool option) run" where
  "select_amp env amp_arg =
     (if amp_arg \<and> torch_ge_1_6_0 env then
        seq (do_call ImportAutocast) (\<lambda>_. ret (AmpFlag amp_arg, Some True, None))
      else if amp_arg then
        seq (do_call ImportApex) (\<lambda>_.
          if apex_importable env then ret (ApexModule, None, Some True)
          else raise (ImportError ''Please install apex from https://github.com/nvidia/apex.''))
      else ret (AmpFlag amp_arg, None, None))"

definition create_supervised_trainer ::
  "environment \<Rightarrow> ('t, 'o, 'k) trainer_args \<Rightarrow> (('k, 'm) call, ('t, 'o, 'k, 'm) engine) run" where
  "create_supervised_trainer env args =
     (if on_tpu_of (device args) \<and> \<not> has_xla_support env then
        raise (RuntimeError ''In order to run on TPU, please install PyTorch XLA'')
      else
        seq (select_amp env (amp args)) (\<lambda>(amp_now, native, apex).
        seq (do_call (EngineInit (deterministic args))) (\<lambda>_.
        ret \<lparr>process_function =
               update \<lparr>sc_args = args, sc_amp = amp_now, on_tpu = on_tpu_of (device args),
                       is_native_amp = native, is_apex_amp = apex\<rparr>,
             is_deterministic = deterministic args\<rparr>)))"

section \<open>The supervised evaluator\<close>

text \<open>The further arguments of \<^verbatim>\<open>create_supervised_evaluator\<close>; a dictionary of metrics is the
  list of its items in iteration order.\<close>

record ('t, 'o, 'm) evaluator_args = "'t supervised_args" +
  metrics :: "(string \<times> 'm) list option"
  eval_output_transform :: "'t \<Rightarrow> 't \<Rightarrow> 't \<Rightarrow> 'o"

text \<open>\<^verbatim>\<open>_inference\<close>, the evaluator's function for one iteration (again without the engine).\<close>

definition inference ::
  "('t, 'o, 'm) evaluator_args \<Rightarrow> 't list \<Rightarrow> (('k, 'm) call, 'o) run" where
  "inference args batch =
     seq (do_call ModelEval) (\<lambda>_.
     with_context NoGradEnter NoGradExit
       (seq (lift (prepare_batch args batch (device args) (non_blocking args))) (\<lambda>(x, y).
        seq (do_call ModelForward) (\<lambda>_.
        ret (eval_output_transform args x y (model args x))))))"

text \<open>Line 203, \<^verbatim>\<open>metrics or {}\<close>: \<^verbatim>\<open>None\<close> and the empty dictionary both give the empty dictionary.\<close>

definition metrics_or_empty :: "(string \<times> 'm) list option \<Rightarrow> (string \<times> 'm) list" where
  "metrics_or_empty ms = (case ms of None \<Rightarrow> [] | Some [] \<Rightarrow> [] | Some (item # items) \<Rightarrow> item # items)"

text \<open>Lines 214 and 215: the loop over the items, calling \<^verbatim>\<open>metric.attach(evaluator, name)\<close>.\<close>

fun attach_all :: "(string \<times> 'm) list \<Rightarrow> (('k, 'm) call, unit) run" where
  "attach_all [] = ret ()"
| "attach_all ((name, metric) # items) =
     seq (do_call (MetricAttach metric name)) (\<lambda>_. attach_all items)"

definition create_supervised_evaluator ::
  "('t, 'o, 'm) evaluator_args \<Rightarrow> (('k, 'm) call, ('t, 'o, 'k, 'm) engine) run" where
  "create_supervised_evaluator args =
     seq (do_call (EngineInit False)) (\<lambda>_.
     seq (attach_all (metrics_or_empty (metrics args))) (\<lambda>_.
     ret \<lparr>process_function = inference args, is_deterministic = False\<rparr>))"

section \<open>The average-precision metric\<close>

text \<open>
  \<^verbatim>\<open>average_precision_compute_fn\<close> imports \<^verbatim>\<open>average_precision_score\<close> and returns the nested
  \<^verbatim>\<open>wrapper\<close>. The scoring function is \<open>Some\<close> function when sklearn can be imported and
  \<open>None\<close> otherwise; \<^verbatim>\<open>.cpu()\<close> and \<^verbatim>\<open>.numpy()\<close> of a tensor are parameters.
\<close>

definition wrapper ::
  "('n \<Rightarrow> 'n \<Rightarrow> 'r) \<Rightarrow> ('t \<Rightarrow> 't) \<Rightarrow> ('t \<Rightarrow> 'n) \<Rightarrow> 't \<Rightarrow> 't \<Rightarrow> 'r" where
  "wrapper average_precision_score cpu numpy y_preds y_targets =
     (let y_true = numpy (cpu y_targets);
          y_pred = numpy (cpu y_preds)
      in average_precision_score y_true y_pred)"

definition average_precision_compute_fn ::
  "('n \<Rightarrow> 'n \<Rightarrow> 'r) option \<Rightarrow> ('t \<Rightarrow> 't) \<Rightarrow> ('t \<Rightarrow> 'n) \<Rightarrow> error + ('t \<Rightarrow> 't \<Rightarrow> 'r)" where
  "average_precision_compute_fn sklearn cpu numpy =
     (case sklearn of
        None \<Rightarrow> Inl (ImportError ''sklearn'')
      | Some average_precision_score \<Rightarrow> Inr (wrapper average_precision_score cpu numpy))"

text \<open>
  Modelled from the spec: the base class \<^verbatim>\<open>EpochMetric\<close> is not among the sources. The spec
  has the metric delegate its computation to the function it was given; the base part of the
  object is here the four arguments that \<^verbatim>\<open>AveragePrecision.__init__\<close> hands to the
  initialiser of the base class (lines 52 to 57).
\<close>

record ('t, 'r, 'x) epoch_metric =
  compute_fn :: "'t \<Rightarrow> 't \<Rightarrow> 'r"
  metric_output_transform :: "'x \<Rightarrow> 't \<times> 't"
  check_compute_fn :: bool
  metric_device :: device

record ('t, 'r, 'x) average_precision = "('t, 'r, 'x) epoch_metric" +
  average_precision_compute :: "'t \<Rightarrow> 't \<Rightarrow> 'r"

definition AveragePrecision_init ::
  "('n \<Rightarrow> 'n \<Rightarrow> 'r) option \<Rightarrow> ('t \<Rightarrow> 't) \<Rightarrow> ('t \<Rightarrow> 'n) \<Rightarrow>
   ('x \<Rightarrow> 't \<times> 't) \<Rightarrow> bool \<Rightarrow> device \<Rightarrow> error + ('t, 'r, 'x) average_precision" where
  "AveragePrecision_init sklearn cpu numpy out_transform check dev =
     (case sklearn of
        None \<Rightarrow> Inl (RuntimeError ''This contrib module requires sklearn to be installed.'')
      | Some _ \<Rightarrow>
          (case average_precision_compute_fn sklearn cpu numpy of
             Inl e \<Rightarrow> Inl e
           | Inr f \<Rightarrow>
               Inr \<lparr>compute_fn = f, metric_output_transform = out_transform,
                    check_compute_fn = check, metric_device = dev,
                    average_precision_compute = f\<rparr>))"

section \<open>Concrete inputs\<close>

text \<open>
  Inputs on which the definitions are run below: tensors are integers, the model doubles its
  input, the loss is the difference of prediction and target, moving a tensor to a device
  leaves it as it is. The environment has torch 1.6.0 or later, and neither XLA nor apex.
\<close>

definition example_env :: environment where
  "example_env = \<lparr>has_xla_support = False, torch_ge_1_6_0 = True, apex_importable = False\<rparr>"

definition example_convert :: "int \<Rightarrow> device option \<Rightarrow> bool \<Rightarrow> int" where
  "example_convert t dev nb = t"

definition example_trainer_args :: "(int, int, int) trainer_args" where
  "example_trainer_args =
     \<lparr>model = (\<lambda>x. 2 * x), device = None, non_blocking = False,
      prepare_batch = prepare_batch_default example_convert,
      loss_fn = (\<lambda>y_pred y. y_pred - y), output_transform = (\<lambda>x y y_pred loss. loss),
      deterministic = False, amp = False, grad_norm_kwargs = []\<rparr>"

definition example_evaluator_args :: "(int, int \<times> int, nat) evaluator_args" where
  "example_evaluator_args =
     \<lparr>model = (\<lambda>x. 2 * x), device = None, non_blocking = False,
      prepare_batch = prepare_batch_default example_convert,
      metrics = Some [(''ap'', 0), (''accuracy'', 1)],
      eval_output_transform = (\<lambda>x y y_pred. (y_pred, y))\<rparr>"

section \<open>Properties of batch preparation\<close>

lemma unpack2_pair: "unpack2 [x, y] = Inr (x, y)"
  by (simp add: unpack2_def)

lemma unpack2_other: "length batch \<noteq> 2 \<Longrightarrow> unpack2 batch = Inl ValueError"
  by (auto simp: unpack2_def split: list.splits)

lemma prepare_batch_default_other:
  "length batch \<noteq> 2 \<Longrightarrow> prepare_batch_default convert_tensor batch dev nb = Inl ValueError"
  by (simp add: prepare_batch_default_def unpack2_other)

text \<open>The substring test is the library's contiguous-sublist relation.\<close>

lemma str_contains_sublist: "str_contains sub s = sublist sub s"
  by (induction s) (auto simp: sublist_Cons_right)

text \<open>
  C6. On a batch of exactly two elements \<open>x\<close>, \<open>y\<close> the default batch preparation returns the
  pair of \<open>convert_tensor x\<close> and \<open>convert_tensor y\<close>, each with the given device and
  non-blocking flag, in that order, and nothing else is done to the data.
\<close>

theorem prepare_batch_pair:
  "prepare_batch_default convert_tensor [x, y] dev nb =
     Inr (convert_tensor x dev nb, convert_tensor y dev nb)"
  by (simp add: prepare_batch_default_def unpack2_pair)

section \<open>One iteration of the trainer\<close>

lemmas run_defs = seq_def ret_def raise_def do_call_def lift_def with_context_def

lemmas flag_defs = load_def py_and_def py_not_def native_flag_def apex_flag_def

lemma snd_seq: "snd (seq m f) = (case snd m of Inl e \<Rightarrow> Inl e | Inr a \<Rightarrow> snd (f a))"
  by (simp add: seq_def split: sum.splits)

lemma fst_seq: "fst (seq m f) = (case snd m of Inl e \<Rightarrow> fst m | Inr a \<Rightarrow> fst m @ fst (f a))"
  by (simp add: seq_def split: sum.splits)

text \<open>
  When the batch preparation raises, so does the iteration, after the first two calls.
\<close>

lemma update_prepare_raises:
  "prepare_batch (sc_args sc) batch (device (sc_args sc)) (non_blocking (sc_args sc)) = Inl e \<Longrightarrow>
   update sc batch = ([ModelTrain, OptimizerZeroGrad], Inl e)"
  by (simp add: update_def run_defs)

text \<open>
  The test of line 125 reads \<^verbatim>\<open>is_native_amp\<close> first and, when that is true, \<^verbatim>\<open>is_apex_amp\<close>.
  With either of them unbound the iteration stops there.
\<close>

lemma update_unbound_native:
  "is_native_amp sc = None \<Longrightarrow>
   prepare_batch (sc_args sc) batch (device (sc_args sc)) (non_blocking (sc_args sc)) = Inr (x, y) \<Longrightarrow>
   update sc batch = ([ModelTrain, OptimizerZeroGrad], Inl (NameError ''is_native_amp''))"
  by (simp add: update_def forward_loss_def run_defs flag_defs)

lemma update_unbound_apex:
  "is_native_amp sc = Some True \<Longrightarrow> is_apex_amp sc = None \<Longrightarrow>
   prepare_batch (sc_args sc) batch (device (sc_args sc)) (non_blocking (sc_args sc)) = Inr (x, y) \<Longrightarrow>
   update sc batch = ([ModelTrain, OptimizerZeroGrad], Inl (NameError ''is_apex_amp''))"
  by (simp add: update_def forward_loss_def run_defs flag_defs)

text \<open>
  In a scope where both flags are bound, which no call of the factory produces, the
  iteration runs to its end: with native mixed precision it clips the model's parameters
  between \<^verbatim>\<open>scaler.unscale_\<close> and \<^verbatim>\<open>scaler.step\<close>, with apex it clips the master parameters
  before \<^verbatim>\<open>optimizer.step\<close>, and with neither it makes no backward pass, no clipping and,
  off the TPU, no optimizer step.
\<close>

lemma update_native_bound:
  assumes "is_native_amp sc = Some True" and "is_apex_amp sc = Some False"
    and "grad_norm_kwargs (sc_args sc) \<noteq> []" and "truthy (sc_amp sc)"
    and "prepare_batch (sc_args sc) batch (device (sc_args sc)) (non_blocking (sc_args sc)) =
      Inr (x, y)"
  shows "update sc batch =
    ([ModelTrain, OptimizerZeroGrad, AutocastEnter True, ModelForward, LossFn, AutocastExit,
      ScalerScaleBackward, ScalerUnscale,
      ClipGradNorm ModelParameters (grad_norm_kwargs (sc_args sc)), ScalerStep, ScalerUpdate],
     Inr (output_transform (sc_args sc) x y (model (sc_args sc) x)
            (loss_fn (sc_args sc) (model (sc_args sc) x) y)))"
  using assms
  by (simp add: update_def forward_loss_def backward_def clip_gradients_def optimizer_step_def
      run_defs flag_defs)

lemma update_apex_bound:
  assumes "is_native_amp sc = Some False" and "is_apex_amp sc = Some True"
    and "grad_norm_kwargs (sc_args sc) \<noteq> []" and "truthy (sc_amp sc)"
    and "prepare_batch (sc_args sc) batch (device (sc_args sc)) (non_blocking (sc_args sc)) =
      Inr (x, y)"
  shows "update sc batch =
    ([ModelTrain, OptimizerZeroGrad, ModelForward, LossFn,
      AmpScaleLossEnter, ScaledLossBackward, AmpScaleLossExit,
      ClipGradNorm AmpMasterParams (grad_norm_kwargs (sc_args sc)), OptimizerStep],
     Inr (output_transform (sc_args sc) x y (model (sc_args sc) x)
            (loss_fn (sc_args sc) (model (sc_args sc) x) y)))"
  using assms
  by (simp add: update_def forward_loss_def backward_def clip_gradients_def optimizer_step_def
      run_defs flag_defs)

lemma update_plain_bound:
  assumes "is_native_amp sc = Some False" and "is_apex_amp sc = Some False"
    and "\<not> on_tpu sc"
    and "prepare_batch (sc_args sc) batch (device (sc_args sc)) (non_blocking (sc_args sc)) =
      Inr (x, y)"
  shows "update sc batch =
    ([ModelTrain, OptimizerZeroGrad, ModelForward, LossFn],
     Inr (output_transform (sc_args sc) x y (model (sc_args sc) x)
            (loss_fn (sc_args sc) (model (sc_args sc) x) y)))"
  using assms
  by (cases "grad_norm_kwargs (sc_args sc) = []")
    (simp_all add: update_def forward_loss_def backward_def clip_gradients_def
      optimizer_step_def run_defs flag_defs)

subsection \<open>The scopes that the factory builds\<close>

lemma select_amp_cases:
  "snd (select_amp env a) = Inr (v, native, apex) \<Longrightarrow>
   native = None \<or> (native = Some True \<and> apex = None)"
  by (auto simp: select_amp_def run_defs split: if_splits)

lemma trainer_refused:
  "on_tpu_of (device args) \<Longrightarrow> \<not> has_xla_support env \<Longrightarrow>
   create_supervised_trainer env args =
     ([], Inl (RuntimeError ''In order to run on TPU, please install PyTorch XLA''))"
  by (simp add: create_supervised_trainer_def raise_def)

lemma trainer_admitted:
  "\<not> (on_tpu_of (device args) \<and> \<not> has_xla_support env) \<Longrightarrow>
   create_supervised_trainer env args =
     seq (select_amp env (amp args)) (\<lambda>(amp_now, native, apex).
     seq (do_call (EngineInit (deterministic args))) (\<lambda>_.
     ret \<lparr>process_function =
            update \<lparr>sc_args = args, sc_amp = amp_now, on_tpu = on_tpu_of (device args),
                    is_native_amp = native, is_apex_amp = apex\<rparr>,
          is_deterministic = deterministic args\<rparr>))"
  unfolding create_supervised_trainer_def by (rule if_not_P)

text \<open>
  Every engine that the factory returns runs \<open>update\<close> in a scope where \<^verbatim>\<open>is_native_amp\<close> is
  unbound, or is true with \<^verbatim>\<open>is_apex_amp\<close> unbound.
\<close>

lemma trainer_engine_scope:
  fixes eng :: "('t, 'o, 'k, 'm) engine"
  assumes "snd (create_supervised_trainer env args) = Inr eng"
  shows "\<exists>sc. process_function eng = update sc \<and> sc_args sc = args \<and>
           (is_native_amp sc = None \<or> (is_native_amp sc = Some True \<and> is_apex_amp sc = None))"
proof -
  have guard: "\<not> (on_tpu_of (device args) \<and> \<not> has_xla_support env)"
  proof
    assume "on_tpu_of (device args) \<and> \<not> has_xla_support env"
    with assms show False by (simp add: trainer_refused)
  qed
  show ?thesis
  proof (cases "snd (select_amp env (amp args)
      :: (('k, 'm) call, amp_value \<times> bool option \<times> bool option) run)")
    case (Inl e)
    with assms show ?thesis
      by (simp add: trainer_admitted [OF guard] snd_seq)
  next
    case (Inr r)
    obtain v native apex where r: "r = (v, native, apex)"
      by (cases r)
    let ?sc = "\<lparr>sc_args = args, sc_amp = v, on_tpu = on_tpu_of (device args),
                is_native_amp = native, is_apex_amp = apex\<rparr>"
    from Inr r assms have "eng = \<lparr>process_function = update ?sc,
        is_deterministic = deterministic args\<rparr>"
      by (auto simp: trainer_admitted [OF guard] snd_seq ret_def do_call_def)
    moreover from Inr r have "native = None \<or> (native = Some True \<and> apex = None)"
      by (simp add: select_amp_cases)
    ultimately show ?thesis
      by (intro exI [of _ ?sc]) auto
  qed
qed

lemma trainer_step_calls:
  assumes "snd (create_supervised_trainer env args) = Inr eng"
  shows "fst (process_function eng batch) = [ModelTrain, OptimizerZeroGrad] \<and>
         isl (snd (process_function eng batch))"
proof -
  from trainer_engine_scope [OF assms] obtain sc where
    pf: "process_function eng = update sc" and
    fl: "is_native_amp sc = None \<or> (is_native_amp sc = Some True \<and> is_apex_amp sc = None)"
    by blast
  show ?thesis
  proof (cases "prepare_batch (sc_args sc) batch (device (sc_args sc)) (non_blocking (sc_args sc))")
    case (Inl e)
    then show ?thesis using pf by (simp add: update_prepare_raises)
  next
    case (Inr xy)
    obtain x y where "xy = (x, y)" by (cases xy)
    with Inr fl pf show ?thesis
      by (auto simp: update_unbound_native update_unbound_apex)
  qed
qed

subsection \<open>The factory on the concrete inputs\<close>

lemma example_trainer_built:
  "snd (create_supervised_trainer example_env example_trainer_args
         :: ((int, nat) call, (int, int, int, nat) engine) run) =
   Inr \<lparr>process_function =
          update \<lparr>sc_args = example_trainer_args, sc_amp = AmpFlag False, on_tpu = False,
                  is_native_amp = None, is_apex_amp = None\<rparr>,
        is_deterministic = False\<rparr>"
  by (simp add: create_supervised_trainer_def select_amp_def run_defs example_env_def
      example_trainer_args_def on_tpu_of_def device_type_def)

lemma example_prepare:
  "prepare_batch example_trainer_args [3, 4] (device example_trainer_args)
     (non_blocking example_trainer_args) = Inr (3, 4)"
  by (simp add: example_trainer_args_def prepare_batch_default_def unpack2_def example_convert_def)

lemma native_trainer_built:
  "snd (create_supervised_trainer example_env
          (example_trainer_args\<lparr>amp := True, grad_norm_kwargs := [(''max_norm'', 1)]\<rparr>)
         :: ((int, nat) call, (int, int, int, nat) engine) run) =
   Inr \<lparr>process_function =
          update \<lparr>sc_args = example_trainer_args
                    \<lparr>amp := True, grad_norm_kwargs := [(''max_norm'', 1)]\<rparr>,
                  sc_amp = AmpFlag True, on_tpu = False,
                  is_native_amp = Some True, is_apex_amp = None\<rparr>,
        is_deterministic = False\<rparr>"
  by (simp add: create_supervised_trainer_def select_amp_def run_defs example_env_def
      example_trainer_args_def on_tpu_of_def device_type_def)

text \<open>With torch before 1.6.0 and apex installed, the apex trainer stops in the same place.\<close>

lemma apex_trainer_step:
  "\<exists>eng :: (int, int, int, nat) engine.
     create_supervised_trainer
       (example_env\<lparr>torch_ge_1_6_0 := False, apex_importable := True\<rparr>)
       (example_trainer_args\<lparr>amp := True, grad_norm_kwargs := [(''max_norm'', 1)]\<rparr>) =
       ([ImportApex, EngineInit False], Inr eng) \<and>
     process_function eng [3, 4] =
       ([ModelTrain, OptimizerZeroGrad], Inl (NameError ''is_native_amp''))"
  by (simp add: create_supervised_trainer_def select_amp_def run_defs example_env_def
      example_trainer_args_def on_tpu_of_def device_type_def update_def forward_loss_def
      flag_defs prepare_batch_default_def unpack2_def example_convert_def)

text \<open>
  C1. The claim is that in every flag configuration an iteration on a two-element batch runs
  its branch and returns the transformed output. The code does otherwise: whenever the
  factory returns an engine and the batch preparation succeeds, the iteration makes the calls
  \<^verbatim>\<open>model.train()\<close> and \<^verbatim>\<open>optimizer.zero_grad()\<close> and then raises \<^verbatim>\<open>NameError\<close> at the first
  test of the flags, whatever the configuration.
\<close>

theorem trainer_update_raises_NameError:
  assumes "snd (create_supervised_trainer env args) = Inr eng"
    and "prepare_batch args batch (device args) (non_blocking args) = Inr (x, y)"
  shows "\<exists>name. process_function eng batch =
           ([ModelTrain, OptimizerZeroGrad], Inl (NameError name))"
proof -
  from trainer_engine_scope [OF assms(1)] obtain sc where
    pf: "process_function eng = update sc" and a: "sc_args sc = args" and
    fl: "is_native_amp sc = None \<or> (is_native_amp sc = Some True \<and> is_apex_amp sc = None)"
    by blast
  from assms(2) a have
    pb: "prepare_batch (sc_args sc) batch (device (sc_args sc)) (non_blocking (sc_args sc)) =
      Inr (x, y)"
    by simp
  from fl show ?thesis
  proof
    assume "is_native_amp sc = None"
    from update_unbound_native [OF this pb] pf show ?thesis by auto
  next
    assume h: "is_native_amp sc = Some True \<and> is_apex_amp sc = None"
    from update_unbound_apex [OF conjunct1 [OF h] conjunct2 [OF h] pb] pf
    show ?thesis by auto
  qed
qed

text \<open>The default configuration, \<^verbatim>\<open>amp=False\<close>, on the batch \<open>[3, 4]\<close>.\<close>

theorem trainer_update_raises_NameError_witness:
  "\<exists>(eng :: (int, int, int, nat) engine) name.
     snd (create_supervised_trainer example_env example_trainer_args) = Inr eng \<and>
     prepare_batch example_trainer_args [3, 4] (device example_trainer_args)
       (non_blocking example_trainer_args) = Inr (3, 4) \<and>
     process_function eng [3, 4] = ([ModelTrain, OptimizerZeroGrad], Inl (NameError name)) \<and>
     name = ''is_native_amp''"
proof -
  let ?eng = "\<lparr>process_function =
          update \<lparr>sc_args = example_trainer_args, sc_amp = AmpFlag False, on_tpu = False,
                  is_native_amp = None, is_apex_amp = None\<rparr>,
        is_deterministic = False\<rparr> :: (int, int, int, nat) engine"
  have b: "snd (create_supervised_trainer example_env example_trainer_args) = Inr ?eng"
    by (rule example_trainer_built)
  from trainer_update_raises_NameError [OF b example_prepare] obtain name where
    r: "process_function ?eng [3, 4] = ([ModelTrain, OptimizerZeroGrad], Inl (NameError name))"
    by blast
  have "process_function ?eng [3, 4] =
       ([ModelTrain, OptimizerZeroGrad], Inl (NameError ''is_native_amp''))"
    using example_prepare by (simp add: update_unbound_native)
  with r have "name = ''is_native_amp''"
    by simp
  with b example_prepare r show ?thesis
    by blast
qed

text \<open>
  C3. The claim is that supplied \<^verbatim>\<open>grad_norm_kwargs\<close> make every iteration clip the gradients
  before the optimizer step. The code does otherwise: no iteration of an engine that the
  factory returns reaches a call of \<^verbatim>\<open>clip_grad_norm_\<close>, with any arguments, because it
  raises before the forward pass.
\<close>

theorem trainer_never_clips:
  assumes "snd (create_supervised_trainer env args) = Inr eng"
  shows "ClipGradNorm params kwargs \<notin> set (fst (process_function eng batch))"
  using trainer_step_calls [OF assms, of batch] by simp

text \<open>Native mixed precision with \<^verbatim>\<open>max_norm=1\<close>, on the batch \<open>[3, 4]\<close>.\<close>

theorem trainer_never_clips_witness:
  "\<exists>eng :: (int, int, int, nat) engine.
     snd (create_supervised_trainer example_env
           (example_trainer_args\<lparr>amp := True, grad_norm_kwargs := [(''max_norm'', 1)]\<rparr>)) =
       Inr eng \<and>
     ClipGradNorm ModelParameters [(''max_norm'', 1)] \<notin> set (fst (process_function eng [3, 4])) \<and>
     process_function eng [3, 4] =
       ([ModelTrain, OptimizerZeroGrad], Inl (NameError ''is_apex_amp''))"
proof -
  let ?args = "example_trainer_args\<lparr>amp := True, grad_norm_kwargs := [(''max_norm'', 1)]\<rparr>"
  let ?sc = "\<lparr>sc_args = ?args, sc_amp = AmpFlag True, on_tpu = False,
               is_native_amp = Some True, is_apex_amp = None\<rparr>"
  let ?eng = "\<lparr>process_function = update ?sc, is_deterministic = False\<rparr>
              :: (int, int, int, nat) engine"
  have b: "snd (create_supervised_trainer example_env ?args) = Inr ?eng"
    by (rule native_trainer_built)
  have p: "prepare_batch (sc_args ?sc) [3, 4] (device (sc_args ?sc)) (non_blocking (sc_args ?sc))
             = Inr (3, 4)"
    by (simp add: example_trainer_args_def prepare_batch_default_def unpack2_def
        example_convert_def)
  have r: "process_function ?eng [3, 4] =
       ([ModelTrain, OptimizerZeroGrad], Inl (NameError ''is_apex_amp''))"
    using update_unbound_apex [OF _ _ p] by simp
  from trainer_never_clips [OF b, of ModelParameters "[(''max_norm'', 1)]" "[3, 4]"] b r
  show ?thesis by blast
qed

section \<open>Two-element batches\<close>

lemma inference_prepare_raises:
  "prepare_batch args batch (device args) (non_blocking args) = Inl e \<Longrightarrow>
   inference args batch = ([ModelEval, NoGradEnter, NoGradExit], Inl e)"
  by (simp add: inference_def run_defs)

lemma inference_prepared:
  "prepare_batch args batch (device args) (non_blocking args) = Inr (x, y) \<Longrightarrow>
   inference args batch =
     ([ModelEval, NoGradEnter, ModelForward, NoGradExit],
      Inr (eval_output_transform args x y (model args x)))"
  by (simp add: inference_def run_defs)

text \<open>
  C9. On a batch whose length is not two the default batch preparation raises at its
  destructuring, and so does an iteration of the trainer and of the evaluator that use the
  default batch preparation.
\<close>

theorem two_elements_required:
  assumes "length batch \<noteq> 2"
  shows "prepare_batch_default convert_tensor batch dev nb = Inl ValueError \<and>
         snd (update (sc\<lparr>sc_args := (sc_args sc)\<lparr>prepare_batch :=
                prepare_batch_default convert_tensor\<rparr>\<rparr>) batch) = Inl ValueError \<and>
         snd (inference (args\<lparr>prepare_batch := prepare_batch_default convert_tensor\<rparr>) batch) =
           Inl ValueError"
  using assms
  by (simp add: prepare_batch_default_other update_prepare_raises inference_prepare_raises)

theorem two_elements_required_witness:
  "length [5, 6, 7 :: int] \<noteq> 2 \<and>
   prepare_batch_default example_convert [5, 6, 7] None False = Inl ValueError \<and>
   snd (update \<lparr>sc_args = example_trainer_args, sc_amp = AmpFlag False, on_tpu = False,
                is_native_amp = None, is_apex_amp = None\<rparr> [5, 6, 7]
          :: ((int, nat) call, int) run) = Inl ValueError \<and>
   snd (inference example_evaluator_args [5, 6, 7] :: ((int, nat) call, int \<times> int) run) =
     Inl ValueError"
proof -
  have len: "length [5, 6, 7 :: int] \<noteq> 2"
    by simp
  have t: "\<lparr>sc_args = example_trainer_args, sc_amp = AmpFlag False, on_tpu = False,
            is_native_amp = None, is_apex_amp = None\<rparr>
           \<lparr>sc_args := (sc_args \<lparr>sc_args = example_trainer_args, sc_amp = AmpFlag False,
               on_tpu = False, is_native_amp = None, is_apex_amp = None\<rparr>)
               \<lparr>prepare_batch := prepare_batch_default example_convert\<rparr>\<rparr> =
           \<lparr>sc_args = example_trainer_args, sc_amp = AmpFlag False, on_tpu = False,
            is_native_amp = None, is_apex_amp = None\<rparr>"
    by (simp add: example_trainer_args_def)
  have e: "example_evaluator_args\<lparr>prepare_batch := prepare_batch_default example_convert\<rparr> =
           example_evaluator_args"
    by (simp add: example_evaluator_args_def)
  from two_elements_required [OF len, of example_convert None False
      "\<lparr>sc_args = example_trainer_args, sc_amp = AmpFlag False, on_tpu = False,
        is_native_amp = None, is_apex_amp = None\<rparr>" example_evaluator_args]
  show ?thesis
    unfolding t e using len by blast
qed

section \<open>The evaluator factory\<close>

lemma attach_all_calls:
  "attach_all items = (map (\<lambda>(name, metric). MetricAttach metric name) items, Inr ())"
  by (induction items rule: attach_all.induct) (simp_all add: run_defs)

lemma metrics_or_empty_items:
  "metrics_or_empty ms = (case ms of None \<Rightarrow> [] | Some items \<Rightarrow> items)"
  by (simp add: metrics_or_empty_def split: option.splits list.splits)

lemma evaluator_run:
  "create_supervised_evaluator args =
     (EngineInit False #
        map (\<lambda>(name, metric). MetricAttach metric name)
          (case metrics args of None \<Rightarrow> [] | Some items \<Rightarrow> items),
      Inr \<lparr>process_function = inference args, is_deterministic = False\<rparr>)"
  by (simp add: create_supervised_evaluator_def attach_all_calls metrics_or_empty_items run_defs)

text \<open>
  C5. Given a dictionary of metrics, the evaluator factory builds the engine, then calls
  \<^verbatim>\<open>attach\<close> on each metric of the dictionary with the metric's key as the name, in the order
  of the dictionary, and then returns the engine; given \<^verbatim>\<open>None\<close> it builds and returns the
  engine and attaches nothing.
\<close>

theorem evaluator_attaches_metrics:
  "create_supervised_evaluator (args\<lparr>metrics := Some items\<rparr>) =
     (EngineInit False # map (\<lambda>(name, metric). MetricAttach metric name) items,
      Inr \<lparr>process_function = inference (args\<lparr>metrics := Some items\<rparr>),
           is_deterministic = False\<rparr>) \<and>
   create_supervised_evaluator (args\<lparr>metrics := None\<rparr>) =
     ([EngineInit False],
      Inr \<lparr>process_function = inference (args\<lparr>metrics := None\<rparr>),
           is_deterministic = False\<rparr>)"
  by (simp add: evaluator_run)

section \<open>The XLA check\<close>

text \<open>
  C7. When the type of the device (the string itself for a string device) contains
  \<^verbatim>\<open>xla\<close> and XLA support is missing, the trainer factory raises \<^verbatim>\<open>RuntimeError\<close> having made
  no call, so before any engine is built; for every other device, and for no device, the
  factory does not raise \<^verbatim>\<open>RuntimeError\<close>.
\<close>

theorem xla_check:
  "(if (\<exists>t. device_type (device args) = Some t \<and> sublist ''xla'' t) \<and> \<not> has_xla_support env
    then create_supervised_trainer env args =
           ([], Inl (RuntimeError ''In order to run on TPU, please install PyTorch XLA''))
    else (\<forall>msg. snd (create_supervised_trainer env args) \<noteq> Inl (RuntimeError msg)))"
proof -
  have tpu: "on_tpu_of (device args) =
      (\<exists>t. device_type (device args) = Some t \<and> sublist ''xla'' t)"
    by (simp add: on_tpu_of_def str_contains_sublist split: option.splits)
  show ?thesis
  proof (cases "on_tpu_of (device args) \<and> \<not> has_xla_support env")
    case True
    then show ?thesis
      using tpu by (simp add: trainer_refused)
  next
    case False
    have "snd (create_supervised_trainer env args) \<noteq> Inl (RuntimeError msg)" for msg
      by (simp add: trainer_admitted [OF False] select_amp_def snd_seq run_defs
          split: sum.splits)
    with False tpu show ?thesis by auto
  qed
qed

text \<open>Without XLA support: the device \<^verbatim>\<open>torch.device("xla", 1)\<close>, the device \<^verbatim>\<open>"cuda:0"\<close>, no device.\<close>

theorem xla_check_witness:
  "create_supervised_trainer example_env
      (example_trainer_args\<lparr>device := Some (TorchDevice ''xla'' (Some 1))\<rparr>) =
     ([] :: (int, nat) call list,
      Inl (RuntimeError ''In order to run on TPU, please install PyTorch XLA'')) \<and>
   (\<forall>msg. snd (create_supervised_trainer example_env
       (example_trainer_args\<lparr>device := Some (DeviceStr ''cuda:0'')\<rparr>)
       :: ((int, nat) call, (int, int, int, nat) engine) run) \<noteq> Inl (RuntimeError msg)) \<and>
   (\<forall>msg. snd (create_supervised_trainer example_env example_trainer_args
       :: ((int, nat) call, (int, int, int, nat) engine) run) \<noteq> Inl (RuntimeError msg))"
proof -
  have x: "sublist ''xla'' ''xla''"
    by simp
  have c: "\<not> sublist ''xla'' ''cuda:0''"
    by (simp add: str_contains_sublist [symmetric])
  show ?thesis
    using
      xla_check [of "example_trainer_args\<lparr>device := Some (TorchDevice ''xla'' (Some 1))\<rparr>"
        example_env]
      xla_check [of "example_trainer_args\<lparr>device := Some (DeviceStr ''cuda:0'')\<rparr>"
        example_env]
      xla_check [of example_trainer_args example_env] x c
    by (simp add: device_type_def example_env_def example_trainer_args_def)
qed

section \<open>The average-precision metric\<close>

text \<open>
  C4. With sklearn importable, the compute function of the metric is the function that maps
  predictions and targets to \<^verbatim>\<open>average_precision_score\<close> of the numpy form of the targets on
  the CPU, as first argument, and of the predictions, as second; it computes nothing else.
\<close>

theorem compute_fn_delegates:
  "average_precision_compute_fn (Some score) cpu numpy =
     Inr (\<lambda>y_preds y_targets. score (numpy (cpu y_targets)) (numpy (cpu y_preds)))"
  by (simp add: average_precision_compute_fn_def wrapper_def fun_eq_iff)

text \<open>
  C8. Without sklearn the initialiser raises \<^verbatim>\<open>RuntimeError\<close>; with sklearn it returns the
  metric, whose compute function, as handed to the base class and as kept in
  \<^verbatim>\<open>average_precision_compute\<close>, is the wrapper around sklearn's scoring function.
\<close>

theorem AveragePrecision_init_sklearn:
  "AveragePrecision_init None cpu numpy out_transform check dev =
     Inl (RuntimeError ''This contrib module requires sklearn to be installed.'') \<and>
   AveragePrecision_init (Some score) cpu numpy out_transform check dev =
     Inr \<lparr>compute_fn = wrapper score cpu numpy, metric_output_transform = out_transform,
          check_compute_fn = check, metric_device = dev,
          average_precision_compute = wrapper score cpu numpy\<rparr>"
  by (simp add: AveragePrecision_init_def average_precision_compute_fn_def)

section \<open>The calls of the factories and of the step functions\<close>




lemma evaluator_factory_callees:
  "callee_of ` set (fst (create_supervised_evaluator args)) \<subseteq> {TheEngine, TheMetric}"
  by (auto simp: evaluator_run)

lemma trainer_calls_with_xla:
  "has_xla_support env \<Longrightarrow>
   fst (create_supervised_trainer env (args\<lparr>device := dev\<rparr>)) =
   fst (create_supervised_trainer env args)"
  by (simp add: trainer_admitted fst_seq run_defs split: sum.splits prod.splits)

lemma forward_loss_calls:
  "set (fst (forward_loss sc x y)) \<subseteq>
     {AutocastEnter (truthy (sc_amp sc)), AutocastExit, ModelForward, LossFn}"
  by (auto simp: forward_loss_def run_defs flag_defs split: option.splits sum.splits if_splits)

lemma backward_calls:
  "set (fst (backward sc)) \<subseteq>
     {AmpScaleLossEnter, ScaledLossBackward, AmpScaleLossExit, ScalerScaleBackward, ScalerUnscale}"
  by (auto simp: backward_def run_defs flag_defs split: option.splits sum.splits if_splits)

lemma clip_gradients_calls:
  "set (fst (clip_gradients sc)) \<subseteq>
     {ClipGradNorm ModelParameters (grad_norm_kwargs (sc_args sc)),
      ClipGradNorm AmpMasterParams (grad_norm_kwargs (sc_args sc))}"
  by (auto simp: clip_gradients_def Let_def run_defs flag_defs
      split: option.splits sum.splits if_splits)

lemma optimizer_step_calls:
  "set (fst (optimizer_step sc)) \<subseteq> {XmOptimizerStep, ScalerStep, ScalerUpdate, OptimizerStep}"
  by (auto simp: optimizer_step_def run_defs flag_defs split: option.splits sum.splits if_splits)

lemma inference_calls:
  "set (fst (inference args batch)) \<subseteq> {ModelEval, NoGradEnter, ModelForward, NoGradExit}"
  by (cases "prepare_batch args batch (device args) (non_blocking args)")
    (auto simp: inference_prepare_raises inference_prepared)

section \<open>What the two step functions are closed over\<close>

lemma update_begins:
  "take 2 (fst (update sc batch)) = [ModelTrain, OptimizerZeroGrad]"
  by (simp add: update_def fst_seq do_call_def)

lemma forward_loss_result:
  "snd (forward_loss sc x y) = Inr r \<Longrightarrow>
   r = (model (sc_args sc) x, loss_fn (sc_args sc) (model (sc_args sc) x) y)"
  by (auto simp: forward_loss_def snd_seq run_defs split: sum.splits if_splits)

lemma update_result:
  fixes sc :: "('t, 'o, 'k) trainer_scope"
  shows
  "(\<exists>e. snd (update sc batch :: (('k, 'm) call, 'o) run) = Inl e) \<or>
   (\<exists>x y. prepare_batch (sc_args sc) batch (device (sc_args sc)) (non_blocking (sc_args sc)) =
       Inr (x, y) \<and>
     snd (update sc batch :: (('k, 'm) call, 'o) run) =
       Inr (output_transform (sc_args sc) x y (model (sc_args sc) x)
              (loss_fn (sc_args sc) (model (sc_args sc) x) y)))"
proof (cases "snd (update sc batch :: (('k, 'm) call, 'o) run)")
  case (Inl e)
  then show ?thesis by blast
next
  case (Inr out)
  then obtain x y where
    p: "prepare_batch (sc_args sc) batch (device (sc_args sc)) (non_blocking (sc_args sc)) =
      Inr (x, y)"
    by (cases "prepare_batch (sc_args sc) batch (device (sc_args sc)) (non_blocking (sc_args sc))")
      (auto simp: update_prepare_raises)
  from Inr p obtain r where
    f: "snd (forward_loss sc x y :: (('k, 'm) call, 't \<times> 't) run) = Inr r"
    by (cases "snd (forward_loss sc x y :: (('k, 'm) call, 't \<times> 't) run)")
      (auto simp: update_def snd_seq run_defs)
  from forward_loss_result [OF f] have
    r: "r = (model (sc_args sc) x, loss_fn (sc_args sc) (model (sc_args sc) x) y)" .
  from Inr p f r have "out = output_transform (sc_args sc) x y (model (sc_args sc) x)
              (loss_fn (sc_args sc) (model (sc_args sc) x) y)"
    by (auto simp: update_def snd_seq run_defs split: sum.splits)
  with Inr p show ?thesis by blast
qed

lemma inference_run:
  "inference args batch =
     (case prepare_batch args batch (device args) (non_blocking args) of
        Inl e \<Rightarrow> ([ModelEval, NoGradEnter, NoGradExit], Inl e)
      | Inr (x, y) \<Rightarrow>
          ([ModelEval, NoGradEnter, ModelForward, NoGradExit],
           Inr (eval_output_transform args x y (model args x))))"
  by (simp add: inference_def run_defs split: sum.splits prod.splits)


lemma evaluator_step_calls:
  "callee_of ` set (fst (inference args batch)) \<subseteq> {TheModel, Torch}"
  using inference_calls [of args batch] by auto

lemma example_unbound_step:
  "update \<lparr>sc_args = example_trainer_args, sc_amp = AmpFlag False,
       on_tpu = False, is_native_amp = None, is_apex_amp = None\<rparr> [3, 4] =
     ([ModelTrain, OptimizerZeroGrad], Inl (NameError ''is_native_amp''))"
  by (simp add: update_def forward_loss_def run_defs flag_defs example_trainer_args_def
      prepare_batch_default_def unpack2_def example_convert_def)

lemma example_bound_step:
  "update \<lparr>sc_args = example_trainer_args, sc_amp = AmpFlag False, on_tpu = False,
            is_native_amp = Some False, is_apex_amp = Some False\<rparr> [3, 4] =
     ([ModelTrain, OptimizerZeroGrad, ModelForward, LossFn], Inr 2)"
  by (simp add: update_def forward_loss_def backward_def clip_gradients_def optimizer_step_def
      run_defs flag_defs example_trainer_args_def prepare_batch_default_def unpack2_def
      example_convert_def)

text \<open>
  C2, as stated: the step function of the evaluator, like that of the trainer, is configured
  with an optimizer and a loss function. It fails for the evaluator: built from arguments
  that hold a model and no optimizer or loss function, the evaluator factory makes calls on
  the engine and the metrics only, and an iteration of its step function on the batch
  \<open>[3, 4]\<close> makes calls on the model and on torch only, where an iteration of the
  trainer's step function calls the model and the optimizer.
\<close>

theorem evaluator_step_without_optimizer_and_loss:
  "create_supervised_evaluator example_evaluator_args =
     ([EngineInit False, MetricAttach 0 ''ap'', MetricAttach 1 ''accuracy'']
        :: (int, nat) call list,
      Inr \<lparr>process_function = inference example_evaluator_args, is_deterministic = False\<rparr>) \<and>
   inference example_evaluator_args [3, 4] =
     ([ModelEval, NoGradEnter, ModelForward, NoGradExit] :: (int, nat) call list, Inr (6, 4)) \<and>
   callee_of ` set (fst (create_supervised_evaluator example_evaluator_args
       :: ((int, nat) call, (int, int \<times> int, int, nat) engine) run)) =
     {TheEngine, TheMetric} \<and>
   callee_of ` set (fst (inference example_evaluator_args [3, 4]
       :: ((int, nat) call, int \<times> int) run)) = {TheModel, Torch} \<and>
   callee_of ` set (fst (update \<lparr>sc_args = example_trainer_args, sc_amp = AmpFlag False,
       on_tpu = False, is_native_amp = None, is_apex_amp = None\<rparr> [3, 4]
       :: ((int, nat) call, int) run)) = {TheModel, TheOptimizer}"
  by (auto simp: evaluator_run inference_run example_evaluator_args_def
      prepare_batch_default_def unpack2_def example_convert_def example_unbound_step)

text \<open>
  C2, amended. The step function that the trainer factory hands to the engine is \<open>update\<close>
  closed over the arguments of the factory, among them the model and the loss function;
  every iteration of it begins with \<^verbatim>\<open>model.train()\<close> and \<^verbatim>\<open>optimizer.zero_grad()\<close>, and an
  iteration of \<open>update\<close>, in any scope, either raises or returns the output transform of
  the prepared \<open>x\<close> and \<open>y\<close>, the model's prediction for \<open>x\<close>, and the loss function's value on
  the prediction and \<open>y\<close>. The step function that the evaluator factory hands to the engine
  is \<open>inference\<close> closed over the arguments of that factory, which hold a model and no
  optimizer or loss function: an iteration calls \<^verbatim>\<open>model.eval()\<close>, enters \<^verbatim>\<open>torch.no_grad()\<close>,
  prepares the batch, calls the model and returns the output transform of \<open>x\<close>, \<open>y\<close> and
  the prediction; the evaluator factory makes calls on the engine and the metrics only, and
  an iteration on the model and on torch only.
\<close>

theorem step_functions_closed_over:
  fixes eng :: "('t, 'o, 'k, 'm) engine" and eargs :: "('t, 'p, 'm) evaluator_args"
    and sc :: "('t, 'o, 'k) trainer_scope"
  assumes "snd (create_supervised_trainer env targs) = Inr eng"
  shows
  "(\<exists>scope. process_function eng = update scope \<and> sc_args scope = targs) \<and>
   take 2 (fst (process_function eng batch)) = [ModelTrain, OptimizerZeroGrad] \<and>
   ((\<exists>e. snd (update sc batch :: (('k, 'm) call, 'o) run) = Inl e) \<or>
    (\<exists>x y. prepare_batch (sc_args sc) batch (device (sc_args sc)) (non_blocking (sc_args sc)) =
        Inr (x, y) \<and>
      snd (update sc batch :: (('k, 'm) call, 'o) run) =
        Inr (output_transform (sc_args sc) x y (model (sc_args sc) x)
               (loss_fn (sc_args sc) (model (sc_args sc) x) y)))) \<and>
   snd (create_supervised_evaluator eargs :: (('k, 'm) call, ('t, 'p, 'k, 'm) engine) run) =
     Inr \<lparr>process_function = inference eargs, is_deterministic = False\<rparr> \<and>
   (inference eargs batch :: (('k, 'm) call, 'p) run) =
     (case prepare_batch eargs batch (device eargs) (non_blocking eargs) of
        Inl e \<Rightarrow> ([ModelEval, NoGradEnter, NoGradExit], Inl e)
      | Inr (x, y) \<Rightarrow>
          ([ModelEval, NoGradEnter, ModelForward, NoGradExit],
           Inr (eval_output_transform eargs x y (model eargs x)))) \<and>
   callee_of ` set (fst (create_supervised_evaluator eargs
       :: (('k, 'm) call, ('t, 'p, 'k, 'm) engine) run)) \<subseteq> {TheEngine, TheMetric} \<and>
   callee_of ` set (fst (inference eargs batch :: (('k, 'm) call, 'p) run)) \<subseteq> {TheModel, Torch}"
proof -
  from trainer_engine_scope [OF assms] obtain scope where
    s: "process_function eng = update scope" "sc_args scope = targs"
    by blast
  then have 1: "\<exists>scope. process_function eng = update scope \<and> sc_args scope = targs"
    by blast
  from s have 2: "take 2 (fst (process_function eng batch)) = [ModelTrain, OptimizerZeroGrad]"
    by (simp add: update_begins)
  have 3: "(\<exists>e. snd (update sc batch :: (('k, 'm) call, 'o) run) = Inl e) \<or>
    (\<exists>x y. prepare_batch (sc_args sc) batch (device (sc_args sc)) (non_blocking (sc_args sc)) =
        Inr (x, y) \<and>
      snd (update sc batch :: (('k, 'm) call, 'o) run) =
        Inr (output_transform (sc_args sc) x y (model (sc_args sc) x)
               (loss_fn (sc_args sc) (model (sc_args sc) x) y)))"
    by (rule update_result)
  have 4: "snd (create_supervised_evaluator eargs
       :: (('k, 'm) call, ('t, 'p, 'k, 'm) engine) run) =
     Inr \<lparr>process_function = inference eargs, is_deterministic = False\<rparr>"
    by (simp add: evaluator_run)
  have 5: "(inference eargs batch :: (('k, 'm) call, 'p) run) =
     (case prepare_batch eargs batch (device eargs) (non_blocking eargs) of
        Inl e \<Rightarrow> ([ModelEval, NoGradEnter, NoGradExit], Inl e)
      | Inr (x, y) \<Rightarrow>
          ([ModelEval, NoGradEnter, ModelForward, NoGradExit],
           Inr (eval_output_transform eargs x y (model eargs x))))"
    by (rule inference_run)
  have 6: "callee_of ` set (fst (create_supervised_evaluator eargs
       :: (('k, 'm) call, ('t, 'p, 'k, 'm) engine) run)) \<subseteq> {TheEngine, TheMetric}"
    by (rule evaluator_factory_callees)
  have 7: "callee_of ` set (fst (inference eargs batch :: (('k, 'm) call, 'p) run)) \<subseteq>
      {TheModel, Torch}"
    by (rule evaluator_step_calls)
  from 1 2 3 4 5 6 7 show ?thesis
    by blast
qed

text \<open>
  The trainer and the evaluator built from the concrete inputs, on the batch \<open>[3, 4]\<close>; the
  scope with both flags bound shows an iteration of \<open>update\<close> that returns the loss.
\<close>

theorem step_functions_closed_over_witness:
  "\<exists>eng :: (int, int, int, nat) engine.
     snd (create_supervised_trainer example_env example_trainer_args) = Inr eng \<and>
     (\<exists>scope. process_function eng = update scope \<and> sc_args scope = example_trainer_args) \<and>
     take 2 (fst (process_function eng [3, 4])) = [ModelTrain, OptimizerZeroGrad] \<and>
     snd (update \<lparr>sc_args = example_trainer_args, sc_amp = AmpFlag False, on_tpu = False,
                  is_native_amp = Some False, is_apex_amp = Some False\<rparr> [3, 4]
            :: ((int, nat) call, int) run) = Inr 2 \<and>
     (inference example_evaluator_args [3, 4] :: ((int, nat) call, int \<times> int) run) =
       ([ModelEval, NoGradEnter, ModelForward, NoGradExit], Inr (6, 4))"
proof -
  let ?eng = "\<lparr>process_function =
          update \<lparr>sc_args = example_trainer_args, sc_amp = AmpFlag False, on_tpu = False,
                  is_native_amp = None, is_apex_amp = None\<rparr>,
        is_deterministic = False\<rparr> :: (int, int, int, nat) engine"
  let ?sc = "\<lparr>sc_args = example_trainer_args, sc_amp = AmpFlag False, on_tpu = False,
              is_native_amp = Some False, is_apex_amp = Some False\<rparr>"
  have b: "snd (create_supervised_trainer example_env example_trainer_args) = Inr ?eng"
    by (rule example_trainer_built)
  have p: "prepare_batch (sc_args ?sc) [3, 4] (device (sc_args ?sc)) (non_blocking (sc_args ?sc))
             = Inr (3, 4)"
    by (simp add: example_trainer_args_def prepare_batch_default_def unpack2_def
        example_convert_def)
  have u: "snd (update ?sc [3, 4] :: ((int, nat) call, int) run) = Inr 2"
    by (simp add: example_bound_step)
  have q: "prepare_batch example_evaluator_args [3, 4] (device example_evaluator_args)
      (non_blocking example_evaluator_args) = Inr (3, 4)"
    by (simp add: example_evaluator_args_def prepare_batch_default_def unpack2_def
        example_convert_def)
  from step_functions_closed_over [OF b, of "[3, 4]" ?sc example_evaluator_args] q
  have "(\<exists>scope. process_function ?eng = update scope \<and> sc_args scope = example_trainer_args) \<and>
     take 2 (fst (process_function ?eng [3, 4])) = [ModelTrain, OptimizerZeroGrad] \<and>
     (inference example_evaluator_args [3, 4] :: ((int, nat) call, int \<times> int) run) =
       ([ModelEval, NoGradEnter, ModelForward, NoGradExit], Inr (6, 4))"
    by (simp add: example_evaluator_args_def)
  with b u show ?thesis
    by blast
qed

section \<open>The device\<close>










end
